theory Spec2Isabelle
  imports Main
begin

section \<open>The post store of app.py\<close>

text \<open>
  The application keeps its posts in one file, blog_posts.json, which every handler reads
  in full and, when it changes something, writes in full. The development below embeds the
  three store functions (\<open>load_blog_posts\<close>, \<open>save_blog_posts\<close>, \<open>fetch_post_by_id\<close>) and the
  four mutating handlers (\<open>add\<close>, \<open>update\<close>, \<open>delete\<close>, \<open>like\<close>) as functions on an explicit
  store.
\<close>

subsection \<open>Values\<close>

text \<open>
  What \<open>json.load\<close> returns: \<open>None\<close>, a bool, an int, a str, a list or a dict with string
  keys. A dict is an association list in insertion order; a lookup reads the first binding
  of a key. Floating-point numbers are left out of the model.
\<close>

datatype json =
    JNull
  | JBool bool
  | JInt int
  | JStr string
  | JList "json list"
  | JDict "(string \<times> json) list"

text \<open>The exceptions the code can raise on such values.\<close>

datatype error = JSONDecodeError | KeyError | TypeError | AttributeError

subsection \<open>The file and the store\<close>

text \<open>
  The file blog_posts.json is held as what \<open>json.load\<close> makes of it: it does not exist,
  or its text is not JSON (\<open>json.load\<close> raises), or it parses to a value. The layout of the
  text (\<open>indent=4\<close>) is not represented: \<open>json.dump\<close> of a value leaves a file that
  \<open>json.load\<close> reads back as that value. The field \<open>saved\<close> records each call of
  \<open>save_blog_posts\<close> with the value it wrote (the line it prints), oldest first, so that
  "no save occurs" and "the save still occurs" are statements about the store.
\<close>

datatype disk_file = NoFile | Malformed | Json json

record store =
  disk :: disk_file
  saved :: "json list"

text \<open>Lines 8 to 18: an absent file is the empty list; a parse failure is not caught.\<close>

definition load_blog_posts :: "store \<Rightarrow> error + json" where
  "load_blog_posts s =
     (case disk s of
        NoFile \<Rightarrow> Inr (JList [])
      | Malformed \<Rightarrow> Inl JSONDecodeError
      | Json v \<Rightarrow> Inr v)"

text \<open>Lines 21 to 30: the file is overwritten with the value given.\<close>

definition save_blog_posts :: "json \<Rightarrow> store \<Rightarrow> store" where
  "save_blog_posts posts s = s\<lparr>disk := Json posts, saved := saved s @ [posts]\<rparr>"

subsection \<open>Python's operations on the values\<close>

text \<open>\<open>for x in v\<close>: a list gives its elements, a dict its keys, a str its characters.\<close>

definition py_iter :: "json \<Rightarrow> error + json list" where
  "py_iter v =
     (case v of
        JList xs \<Rightarrow> Inr xs
      | JDict kvs \<Rightarrow> Inr (map (\<lambda>kv. JStr (fst kv)) kvs)
      | JStr cs \<Rightarrow> Inr (map (\<lambda>c. JStr [c]) cs)
      | _ \<Rightarrow> Inl TypeError)"

text \<open>\<open>len(v)\<close>.\<close>

definition py_len :: "json \<Rightarrow> error + nat" where
  "py_len v =
     (case v of
        JList xs \<Rightarrow> Inr (length xs)
      | JDict kvs \<Rightarrow> Inr (length kvs)
      | JStr cs \<Rightarrow> Inr (length cs)
      | _ \<Rightarrow> Inl TypeError)"

text \<open>\<open>v[k]\<close> for a string key \<open>k\<close>: only a dict can be read so.\<close>

definition py_getitem :: "json \<Rightarrow> string \<Rightarrow> error + json" where
  "py_getitem v k =
     (case v of
        JDict kvs \<Rightarrow> (case map_of kvs k of None \<Rightarrow> Inl KeyError | Some x \<Rightarrow> Inr x)
      | _ \<Rightarrow> Inl TypeError)"

text \<open>\<open>v.get(k, d)\<close>: a method of dicts.\<close>

definition py_get :: "json \<Rightarrow> string \<Rightarrow> json \<Rightarrow> error + json" where
  "py_get v k d =
     (case v of
        JDict kvs \<Rightarrow> Inr (case map_of kvs k of None \<Rightarrow> d | Some x \<Rightarrow> x)
      | _ \<Rightarrow> Inl AttributeError)"

text \<open>\<open>d[k] = x\<close> on a dict: an existing key keeps its place, a new key goes last.\<close>

fun setitem :: "(string \<times> json) list \<Rightarrow> string \<Rightarrow> json \<Rightarrow> (string \<times> json) list" where
  "setitem [] k x = [(k, x)]"
| "setitem ((k', x') # kvs) k x =
     (if k' = k then (k, x) # kvs else (k', x') # setitem kvs k x)"

text \<open>\<open>v == n\<close> for an int \<open>n\<close>: \<open>True == 1\<close> and \<open>False == 0\<close> hold in Python.\<close>

definition py_eq_int :: "json \<Rightarrow> int \<Rightarrow> bool" where
  "py_eq_int v n =
     (case v of
        JInt m \<Rightarrow> m = n
      | JBool b \<Rightarrow> (if b then 1 else 0) = n
      | _ \<Rightarrow> False)"

text \<open>\<open>v + 1\<close>, as \<open>post["likes"] += 1\<close> computes it.\<close>

definition py_add1 :: "json \<Rightarrow> error + json" where
  "py_add1 v =
     (case v of
        JInt m \<Rightarrow> Inr (JInt (m + 1))
      | JBool b \<Rightarrow> Inr (JInt ((if b then 1 else 0) + 1))
      | _ \<Rightarrow> Inl TypeError)"

subsection \<open>Requests and responses\<close>

text \<open>
  \<open>request.method\<close> and \<open>request.form\<close>; \<open>form.get(k)\<close> is the first value sent for \<open>k\<close>.
  A HEAD request reaches the handlers of the routes that accept GET and is not a POST.
\<close>

datatype http_method = GET | HEAD | POST

record request =
  request_method :: http_method
  request_form :: "(string \<times> string) list"

datatype response =
    Redirect string
  | Template string "(string \<times> json) list"
  | Text string nat

text \<open>\<open>request.form.get(k)\<close>, which is \<open>None\<close> for a field not sent.\<close>

definition form_get :: "request \<Rightarrow> string \<Rightarrow> json" where
  "form_get req k = (case map_of (request_form req) k of None \<Rightarrow> JNull | Some x \<Rightarrow> JStr x)"

text \<open>\<open>request.form.get(k, default)\<close>.\<close>

definition form_get_default :: "request \<Rightarrow> string \<Rightarrow> json \<Rightarrow> json" where
  "form_get_default req k d = (case map_of (request_form req) k of None \<Rightarrow> d | Some x \<Rightarrow> JStr x)"

subsection \<open>Looking a post up\<close>

text \<open>
  Lines 44 to 47, and the generator of line 176: the scan stops at the first element whose
  \<open>"id"\<close> equals \<open>post_id\<close>; reading \<open>"id"\<close> of an element before it can raise.
\<close>

fun scan :: "json list \<Rightarrow> int \<Rightarrow> error + json option" where
  "scan [] post_id = Inr None"
| "scan (post # rest) post_id =
     (case py_getitem post ''id'' of
        Inl e \<Rightarrow> Inl e
      | Inr v \<Rightarrow> if py_eq_int v post_id then Inr (Some post) else scan rest post_id)"

text \<open>Lines 123 to 125: the same scan over \<open>enumerate(blog_posts)\<close>, giving the index.\<close>

fun scan_index :: "json list \<Rightarrow> int \<Rightarrow> nat \<Rightarrow> error + nat option" where
  "scan_index [] post_id index = Inr None"
| "scan_index (p # rest) post_id index =
     (case py_getitem p ''id'' of
        Inl e \<Rightarrow> Inl e
      | Inr v \<Rightarrow> if py_eq_int v post_id then Inr (Some index)
               else scan_index rest post_id (Suc index))"

text \<open>Lines 33 to 47.\<close>

definition fetch_post_by_id :: "int \<Rightarrow> store \<Rightarrow> error + json option" where
  "fetch_post_by_id post_id s =
     (case load_blog_posts s of
        Inl e \<Rightarrow> Inl e
      | Inr blog_posts \<Rightarrow>
          (case py_iter blog_posts of
             Inl e \<Rightarrow> Inl e
           | Inr posts \<Rightarrow> scan posts post_id))"

subsection \<open>The handlers\<close>

text \<open>
  A handler returns the exception it raised, or its response and the store it leaves.
  Every handler saves as its last step before it returns, so a handler that raises leaves
  the store as it found it.
\<close>

text \<open>Lines 83 to 89.\<close>

definition new_post :: "nat \<Rightarrow> request \<Rightarrow> json" where
  "new_post n req =
     JDict [(''id'', JInt (int n + 1)),
            (''title'', form_get req ''title''),
            (''content'', form_get req ''content''),
            (''author'', form_get_default req ''author'' (JStr ''Anonymous'')),
            (''likes'', JInt 0)]"

text \<open>\<open>blog_posts.append(x)\<close>: only a list has the method.\<close>

definition py_append :: "json \<Rightarrow> json \<Rightarrow> error + json" where
  "py_append v x = (case v of JList xs \<Rightarrow> Inr (JList (xs @ [x])) | _ \<Rightarrow> Inl AttributeError)"

text \<open>Lines 63 to 96.\<close>

definition add :: "request \<Rightarrow> store \<Rightarrow> error + response \<times> store" where
  "add req s =
     (if request_method req = POST then
        (case load_blog_posts s of
           Inl e \<Rightarrow> Inl e
         | Inr blog_posts \<Rightarrow>
             (case py_len blog_posts of
                Inl e \<Rightarrow> Inl e
              | Inr n \<Rightarrow>
                  (case py_append blog_posts (new_post n req) of
                     Inl e \<Rightarrow> Inl e
                   | Inr blog_posts' \<Rightarrow>
                       Inr (Redirect ''index'', save_blog_posts blog_posts' s))))
      else Inr (Template ''add.html'' [], s))"

text \<open>
  Lines 128 to 134, on the dict at \<open>blog_posts[post_index]\<close>. The defaults are read from
  \<open>post\<close>, the dict that \<open>fetch_post_by_id\<close> returned from a load of its own, and they are
  evaluated whether or not the form supplies the field: \<open>post["title"]\<close> and
  \<open>post["content"]\<close> raise KeyError on a post without the key.
\<close>

definition update_fields :: "request \<Rightarrow> json \<Rightarrow> (string \<times> json) list \<Rightarrow> error + json" where
  "update_fields req post kvs =
     (case py_getitem post ''title'' of
        Inl e \<Rightarrow> Inl e
      | Inr t \<Rightarrow>
          (case py_getitem post ''content'' of
             Inl e \<Rightarrow> Inl e
           | Inr c \<Rightarrow>
               (case py_get post ''author'' (JStr ''Anonymous'') of
                  Inl e \<Rightarrow> Inl e
                | Inr a \<Rightarrow>
                    Inr (JDict
                      (setitem
                        (setitem
                          (setitem kvs ''title'' (form_get_default req ''title'' t))
                          ''content'' (form_get_default req ''content'' c))
                        ''author'' (form_get_default req ''author'' a))))))"

text \<open>
  Lines 100 to 140. The element at \<open>post_index\<close> is a dict, since its \<open>"id"\<close> was read; on
  anything else the assignment of line 128 raises TypeError.
\<close>

definition update :: "int \<Rightarrow> request \<Rightarrow> store \<Rightarrow> error + response \<times> store" where
  "update post_id req s =
     (case load_blog_posts s of
        Inl e \<Rightarrow> Inl e
      | Inr blog_posts \<Rightarrow>
          (case fetch_post_by_id post_id s of
             Inl e \<Rightarrow> Inl e
           | Inr None \<Rightarrow> Inr (Text ''Post not found'' 404, s)
           | Inr (Some post) \<Rightarrow>
               (if request_method req = POST then
                  (case py_iter blog_posts of
                     Inl e \<Rightarrow> Inl e
                   | Inr posts \<Rightarrow>
                       (case scan_index posts post_id 0 of
                          Inl e \<Rightarrow> Inl e
                        | Inr None \<Rightarrow> Inr (Redirect ''index'', s)
                        | Inr (Some post_index) \<Rightarrow>
                            (case posts ! post_index of
                               JDict kvs \<Rightarrow>
                                 (case update_fields req post kvs of
                                    Inl e \<Rightarrow> Inl e
                                  | Inr p' \<Rightarrow>
                                      Inr (Redirect ''index'',
                                           save_blog_posts
                                             (JList (posts[post_index := p'])) s))
                             | _ \<Rightarrow> Inl TypeError)))
                else Inr (Template ''update.html'' [(''post'', post)], s))))"

text \<open>Line 155: the comprehension reads \<open>"id"\<close> of every element.\<close>

fun others :: "json list \<Rightarrow> int \<Rightarrow> error + json list" where
  "others [] post_id = Inr []"
| "others (post # rest) post_id =
     (case py_getitem post ''id'' of
        Inl e \<Rightarrow> Inl e
      | Inr v \<Rightarrow>
          (case others rest post_id of
             Inl e \<Rightarrow> Inl e
           | Inr kept \<Rightarrow> Inr (if \<not> py_eq_int v post_id then post # kept else kept)))"

text \<open>Lines 144 to 157.\<close>

definition delete :: "int \<Rightarrow> store \<Rightarrow> error + response \<times> store" where
  "delete post_id s =
     (case load_blog_posts s of
        Inl e \<Rightarrow> Inl e
      | Inr blog_posts \<Rightarrow>
          (case py_iter blog_posts of
             Inl e \<Rightarrow> Inl e
           | Inr posts \<Rightarrow>
               (case others posts post_id of
                  Inl e \<Rightarrow> Inl e
                | Inr kept \<Rightarrow> Inr (Redirect ''index'', save_blog_posts (JList kept) s))))"

text \<open>Lines 183 to 186, on the dict \<open>post\<close>.\<close>

definition bump_likes :: "(string \<times> json) list \<Rightarrow> error + json" where
  "bump_likes kvs =
     (case map_of kvs ''likes'' of
        Some v \<Rightarrow>
          (case py_add1 v of
             Inl e \<Rightarrow> Inl e
           | Inr v' \<Rightarrow> Inr (JDict (setitem kvs ''likes'' v')))
      | None \<Rightarrow> Inr (JDict (setitem kvs ''likes'' (JInt 1))))"

text \<open>
  Lines 161 to 192. \<open>post\<close> is the element of \<open>blog_posts\<close> itself, not a copy: the
  assignment to \<open>post["likes"]\<close> changes the list that is saved, at the index of the first
  match.
\<close>

definition like :: "int \<Rightarrow> store \<Rightarrow> error + response \<times> store" where
  "like post_id s =
     (case load_blog_posts s of
        Inl e \<Rightarrow> Inl e
      | Inr blog_posts \<Rightarrow>
          (case py_iter blog_posts of
             Inl e \<Rightarrow> Inl e
           | Inr posts \<Rightarrow>
               (case scan_index posts post_id 0 of
                  Inl e \<Rightarrow> Inl e
                | Inr None \<Rightarrow> Inr (Text ''Post not found'' 404, s)
                | Inr (Some i) \<Rightarrow>
                    (case posts ! i of
                       JDict kvs \<Rightarrow>
                         (case bump_likes kvs of
                            Inl e \<Rightarrow> Inl e
                          | Inr post' \<Rightarrow>
                              Inr (Redirect ''index'',
                                   save_blog_posts (JList (posts[i := post'])) s))
                     | _ \<Rightarrow> Inl TypeError))))"

subsection \<open>Sequences of store operations\<close>

text \<open>
  The four operations that change the store, each a POST request to its route. An
  operation that raises leaves the store as it was.
\<close>

datatype op =
    Create "(string \<times> string) list"
  | Update int "(string \<times> string) list"
  | Delete int
  | Like int

definition handle :: "op \<Rightarrow> store \<Rightarrow> error + response \<times> store" where
  "handle operation s =
     (case operation of
        Create f \<Rightarrow> add \<lparr>request_method = POST, request_form = f\<rparr> s
      | Update post_id f \<Rightarrow> update post_id \<lparr>request_method = POST, request_form = f\<rparr> s
      | Delete post_id \<Rightarrow> delete post_id s
      | Like post_id \<Rightarrow> like post_id s)"

definition step :: "op \<Rightarrow> store \<Rightarrow> store" where
  "step operation s = (case handle operation s of Inl e \<Rightarrow> s | Inr (r, s') \<Rightarrow> s')"

fun run :: "op list \<Rightarrow> store \<Rightarrow> store" where
  "run [] s = s"
| "run (operation # rest) s = run rest (step operation s)"

subsection \<open>Vocabulary of the properties\<close>

text \<open>A value is a dict that has the key: \<open>v[k]\<close> does not raise.\<close>

definition has_key :: "json \<Rightarrow> string \<Rightarrow> bool" where
  "has_key v k = (case py_getitem v k of Inl e \<Rightarrow> False | Inr x \<Rightarrow> True)"

text \<open>A post matches an id: \<open>p["id"] == post_id\<close> is evaluated and holds.\<close>

definition matches :: "int \<Rightarrow> json \<Rightarrow> bool" where
  "matches post_id p =
     (case py_getitem p ''id'' of Inl e \<Rightarrow> False | Inr v \<Rightarrow> py_eq_int v post_id)"

text \<open>A store of two posts, for the examples.\<close>

definition post_a :: json where
  "post_a = JDict [(''id'', JInt 1), (''title'', JStr ''A''), (''content'', JStr ''a1''),
                   (''author'', JStr ''Anonymous''), (''likes'', JInt 0)]"

definition post_b :: json where
  "post_b = JDict [(''id'', JInt 2), (''title'', JStr ''B''), (''content'', JStr ''b1''),
                   (''author'', JStr ''Bea''), (''likes'', JInt 3)]"

definition two_posts :: store where
  "two_posts = \<lparr>disk = Json (JList [post_a, post_b]), saved = []\<rparr>"

text \<open>The store before anything was saved: blog_posts.json does not exist.\<close>

definition no_file :: store where
  "no_file = \<lparr>disk = NoFile, saved = []\<rparr>"

text \<open>An older record, written without \<open>"author"\<close> and \<open>"likes"\<close>, and a store that holds it.\<close>

definition old_post :: json where
  "old_post = JDict [(''id'', JInt 3), (''title'', JStr ''C''), (''content'', JStr ''c1'')]"

definition old_store :: store where
  "old_store = \<lparr>disk = Json (JList [post_a, old_post]), saved = []\<rparr>"

text \<open>The posts that \<open>add\<close> builds for a list of forms, the first of them from length \<open>n\<close>.\<close>

fun created :: "nat \<Rightarrow> (string \<times> string) list list \<Rightarrow> json list" where
  "created n [] = []"
| "created n (f # fs) =
     new_post n \<lparr>request_method = POST, request_form = f\<rparr> # created (Suc n) fs"

section \<open>Properties\<close>

subsection \<open>The scans\<close>

lemma has_key_getitem: "has_key p k \<Longrightarrow> \<exists>x. py_getitem p k = Inr x"
  by (cases "py_getitem p k") (simp_all add: has_key_def)

lemma matches_getitem: "py_getitem p ''id'' = Inr v \<Longrightarrow> matches post_id p = py_eq_int v post_id"
  by (simp add: matches_def)

lemma matches_dict: "matches post_id p \<Longrightarrow> \<exists>kvs. p = JDict kvs"
  by (cases p) (simp_all add: matches_def py_getitem_def)

text \<open>On posts that all have an id, the loop of \<open>fetch_post_by_id\<close> is \<open>find\<close>.\<close>

lemma scan_find:
  "\<forall>p\<in>set posts. has_key p ''id'' \<Longrightarrow> scan posts post_id = Inr (find (matches post_id) posts)"
proof (induction posts)
  case Nil
  show ?case by simp
next
  case (Cons p posts)
  from Cons.prems obtain v where v: "py_getitem p ''id'' = Inr v"
    using has_key_getitem by fastforce
  from Cons have "scan posts post_id = Inr (find (matches post_id) posts)" by simp
  with v show ?case by (simp add: matches_getitem)
qed

text \<open>On such posts the comprehension of \<open>delete\<close> is \<open>filter\<close>.\<close>

lemma others_filter:
  "\<forall>p\<in>set posts. has_key p ''id'' \<Longrightarrow>
   others posts post_id = Inr (filter (\<lambda>p. \<not> matches post_id p) posts)"
proof (induction posts)
  case Nil
  show ?case by simp
next
  case (Cons p posts)
  from Cons.prems obtain v where v: "py_getitem p ''id'' = Inr v"
    using has_key_getitem by fastforce
  from Cons have "others posts post_id = Inr (filter (\<lambda>p. \<not> matches post_id p) posts)" by simp
  with v show ?case by (simp add: matches_getitem)
qed

text \<open>The scan for the index ends as the scan for the post does.\<close>

lemma scan_index_None:
  "scan posts post_id = Inr None \<Longrightarrow> scan_index posts post_id k = Inr None"
  by (induction posts arbitrary: k) (auto split: sum.splits if_splits)

lemma scan_index_error:
  "scan posts post_id = Inl e \<Longrightarrow> scan_index posts post_id k = Inl e"
  by (induction posts arbitrary: k) (auto split: sum.splits if_splits)

lemma scan_index_Some:
  "scan posts post_id = Inr (Some p) \<Longrightarrow>
   \<exists>j<length posts. scan_index posts post_id k = Inr (Some (k + j)) \<and> posts ! j = p \<and>
     matches post_id p \<and> (\<forall>j'<j. has_key (posts ! j') ''id'' \<and> \<not> matches post_id (posts ! j'))"
proof (induction posts arbitrary: k)
  case Nil
  then show ?case by simp
next
  case (Cons q posts)
  from Cons.prems obtain v where v: "py_getitem q ''id'' = Inr v"
    by (auto split: sum.splits)
  show ?case
  proof (cases "py_eq_int v post_id")
    case True
    with v Cons.prems have "q = p" by simp
    with v True show ?thesis by (auto simp: matches_def)
  next
    case False
    with v Cons.prems have "scan posts post_id = Inr (Some p)" by simp
    from Cons.IH [OF this, of "Suc k"] obtain j where j: "j < length posts"
      "scan_index posts post_id (Suc k) = Inr (Some (Suc k + j))" "posts ! j = p"
      "matches post_id p"
      "\<forall>j'<j. has_key (posts ! j') ''id'' \<and> \<not> matches post_id (posts ! j')"
      by blast
    have "\<forall>j'<Suc j. has_key ((q # posts) ! j') ''id'' \<and> \<not> matches post_id ((q # posts) ! j')"
    proof (intro allI impI)
      fix j' assume "j' < Suc j"
      then show "has_key ((q # posts) ! j') ''id'' \<and> \<not> matches post_id ((q # posts) ! j')"
        using j(5) v False by (cases j') (auto simp: has_key_def matches_def)
    qed
    with j v False show ?thesis
      by (intro exI [of _ "Suc j"]) simp
  qed
qed

text \<open>
  A match is found only in a list: the keys of a dict and the characters of a str are
  strings, and reading \<open>"id"\<close> of a string raises.
\<close>

lemma scan_strs: "\<forall>x\<in>set xs. \<exists>cs. x = JStr cs \<Longrightarrow> scan xs post_id \<noteq> Inr (Some p)"
  by (cases xs) (auto simp: py_getitem_def)

lemma iter_is_list:
  "py_iter b = Inr posts \<Longrightarrow> scan posts post_id = Inr (Some p) \<Longrightarrow> b = JList posts"
  using scan_strs [of posts post_id p]
  by (cases b) (auto simp: py_iter_def)

lemma no_match_scans:
  assumes "\<forall>p\<in>set posts. has_key p ''id''"
    and "\<forall>p\<in>set posts. \<not> matches post_id p"
  shows "scan posts post_id = Inr None" and "scan_index posts post_id k = Inr None"
proof -
  show "scan posts post_id = Inr None"
    using scan_find [OF assms(1), of post_id] assms(2) by (simp add: find_None_iff)
  then show "scan_index posts post_id k = Inr None"
    by (rule scan_index_None)
qed

subsection \<open>The example store\<close>

lemma load_two_posts: "load_blog_posts two_posts = Inr (JList [post_a, post_b])"
  by (simp add: load_blog_posts_def two_posts_def)

lemma two_posts_have_id: "\<forall>p\<in>set [post_a, post_b]. has_key p ''id''"
  by (simp add: has_key_def py_getitem_def post_a_def post_b_def)

lemma two_posts_matches:
  "matches n post_a = (n = 1)" "matches n post_b = (n = 2)"
  by (auto simp: matches_def py_getitem_def py_eq_int_def post_a_def post_b_def)

subsection \<open>Load and Save\<close>

text \<open>
  Claim C7. When blog_posts.json does not exist, \<open>load_blog_posts\<close> returns the empty list
  and raises nothing; when the file exists and its text is not JSON, the JSONDecodeError of
  \<open>json.load\<close> (the spec's ParseError) leaves \<open>load_blog_posts\<close> uncaught.
\<close>

theorem load_missing_or_malformed:
  "(disk s = NoFile \<longrightarrow> load_blog_posts s = Inr (JList [])) \<and>
   (disk s = Malformed \<longrightarrow> load_blog_posts s = Inl JSONDecodeError)"
  by (simp add: load_blog_posts_def)

theorem load_missing_or_malformed_witness:
  "load_blog_posts \<lparr>disk = NoFile, saved = []\<rparr> = Inr (JList []) \<and>
   load_blog_posts \<lparr>disk = Malformed, saved = []\<rparr> = Inl JSONDecodeError"
  using load_missing_or_malformed [of "\<lparr>disk = NoFile, saved = []\<rparr>"]
    load_missing_or_malformed [of "\<lparr>disk = Malformed, saved = []\<rparr>"]
  by simp

subsection \<open>FetchById\<close>

text \<open>
  Claim C8. On a persisted collection (a list of posts that each have an id, or no file),
  \<open>fetch_post_by_id\<close> returns the first post, in the order of the list, whose id equals
  the one asked for; when no post matches it returns \<open>None\<close> and raises nothing.
\<close>

theorem fetch_post_by_id_first_match:
  assumes "load_blog_posts s = Inr (JList posts)"
    and "\<forall>p\<in>set posts. has_key p ''id''"
  shows "fetch_post_by_id post_id s = Inr (find (matches post_id) posts) \<and>
         ((\<forall>p\<in>set posts. \<not> matches post_id p) \<longrightarrow> fetch_post_by_id post_id s = Inr None)"
proof -
  have "fetch_post_by_id post_id s = scan posts post_id"
    using assms(1) by (simp add: fetch_post_by_id_def py_iter_def)
  then have f: "fetch_post_by_id post_id s = Inr (find (matches post_id) posts)"
    using scan_find [OF assms(2)] by simp
  moreover have "(\<forall>p\<in>set posts. \<not> matches post_id p) \<longrightarrow> find (matches post_id) posts = None"
    by (simp add: find_None_iff)
  ultimately show ?thesis by simp
qed

theorem fetch_post_by_id_first_match_witness:
  "fetch_post_by_id 2 two_posts = Inr (Some post_b) \<and>
   fetch_post_by_id 7 two_posts = Inr None"
  using fetch_post_by_id_first_match [OF load_two_posts two_posts_have_id, of 2]
    fetch_post_by_id_first_match [OF load_two_posts two_posts_have_id, of 7]
  by (simp add: two_posts_matches)

subsection \<open>An id that no post has\<close>

text \<open>
  Claim C5. On a collection in which no post has the id, \<open>like\<close> answers "Post not found"
  with status 404 and returns the store as it received it: the file is untouched and
  \<open>save_blog_posts\<close> is not called.
\<close>

theorem like_absent_id_not_found:
  assumes "load_blog_posts s = Inr (JList posts)"
    and "\<forall>p\<in>set posts. has_key p ''id''"
    and "\<forall>p\<in>set posts. \<not> matches post_id p"
  shows "like post_id s = Inr (Text ''Post not found'' 404, s)"
  using assms(1) no_match_scans(2) [OF assms(2,3), of 0]
  by (simp add: like_def py_iter_def)

theorem like_absent_id_not_found_witness:
  "like 7 two_posts = Inr (Text ''Post not found'' 404, two_posts)"
  using like_absent_id_not_found [OF load_two_posts two_posts_have_id, of 7]
  by (simp add: two_posts_matches)

text \<open>
  Claim C10. On a collection in which no post has the id, \<open>update\<close> answers "Post not
  found" with status 404 for every request, before it changes anything: the store it
  returns is the store it received, so nothing was saved.
\<close>

theorem update_absent_id_not_found:
  assumes "load_blog_posts s = Inr (JList posts)"
    and "\<forall>p\<in>set posts. has_key p ''id''"
    and "\<forall>p\<in>set posts. \<not> matches post_id p"
  shows "update post_id req s = Inr (Text ''Post not found'' 404, s)"
  using assms(1) no_match_scans(1) [OF assms(2,3)]
  by (simp add: update_def fetch_post_by_id_def py_iter_def)

theorem update_absent_id_not_found_witness:
  "update 7 \<lparr>request_method = POST, request_form = [(''title'', ''T'')]\<rparr> two_posts
     = Inr (Text ''Post not found'' 404, two_posts)"
  using update_absent_id_not_found [OF load_two_posts two_posts_have_id, of 7]
  by (simp add: two_posts_matches)

subsection \<open>Delete\<close>

text \<open>
  Claim C6. \<open>delete\<close> keeps exactly the posts whose id differs from the one given, in
  their order, and saves that list whatever it is; when no post has the id, the list it
  saves is the whole collection, and the save is still made (one more entry in \<open>saved\<close>).
\<close>

theorem delete_removes_matching_and_saves:
  assumes "load_blog_posts s = Inr (JList posts)"
    and "\<forall>p\<in>set posts. has_key p ''id''"
  shows "delete post_id s =
           Inr (Redirect ''index'',
                s\<lparr>disk := Json (JList (filter (\<lambda>p. \<not> matches post_id p) posts)),
                  saved := saved s @ [JList (filter (\<lambda>p. \<not> matches post_id p) posts)]\<rparr>) \<and>
         ((\<forall>p\<in>set posts. \<not> matches post_id p) \<longrightarrow>
            delete post_id s =
              Inr (Redirect ''index'',
                   s\<lparr>disk := Json (JList posts), saved := saved s @ [JList posts]\<rparr>))"
proof -
  have "(\<forall>p\<in>set posts. \<not> matches post_id p) \<longrightarrow>
          filter (\<lambda>p. \<not> matches post_id p) posts = posts"
    by simp
  then show ?thesis
    using assms(1) others_filter [OF assms(2), of post_id]
    by (simp add: delete_def py_iter_def save_blog_posts_def)
qed

theorem delete_removes_matching_and_saves_witness:
  "delete 1 two_posts =
     Inr (Redirect ''index'', \<lparr>disk = Json (JList [post_b]), saved = [JList [post_b]]\<rparr>) \<and>
   delete 7 two_posts =
     Inr (Redirect ''index'',
          \<lparr>disk = Json (JList [post_a, post_b]), saved = [JList [post_a, post_b]]\<rparr>)"
  using delete_removes_matching_and_saves [OF load_two_posts two_posts_have_id, of 1]
    delete_removes_matching_and_saves [OF load_two_posts two_posts_have_id, of 7]
  by (simp add: two_posts_matches two_posts_def)


subsection \<open>Dicts and saved stores\<close>

lemma load_save: "load_blog_posts (save_blog_posts v s) = Inr v"
  by (simp add: load_blog_posts_def save_blog_posts_def)

lemma map_of_setitem: "map_of (setitem kvs k x) = (map_of kvs)(k \<mapsto> x)"
  by (induction kvs k x rule: setitem.induct) (auto simp: fun_eq_iff)

lemma getitem_setitem:
  "py_getitem (JDict (setitem kvs k x)) k' = (if k' = k then Inr x else py_getitem (JDict kvs) k')"
  by (simp add: py_getitem_def map_of_setitem)

lemma has_key_dict: "has_key (JDict kvs) k = (map_of kvs k \<noteq> None)"
  by (simp add: has_key_def py_getitem_def split: option.splits)

subsection \<open>The first match\<close>

lemma scan_SomeI:
  "j < length posts \<Longrightarrow> matches post_id (posts ! j) \<Longrightarrow>
   \<forall>j'<j. has_key (posts ! j') ''id'' \<and> \<not> matches post_id (posts ! j') \<Longrightarrow>
   scan posts post_id = Inr (Some (posts ! j))"
proof (induction posts arbitrary: j)
  case Nil
  then show ?case by simp
next
  case (Cons q posts)
  show ?case
  proof (cases j)
    case 0
    with Cons.prems(2) show ?thesis
      by (auto simp: matches_def split: sum.splits)
  next
    case (Suc j0)
    from Cons.prems(3) Suc have q: "has_key q ''id''" "\<not> matches post_id q"
      by fastforce+
    then obtain v where v: "py_getitem q ''id'' = Inr v" "\<not> py_eq_int v post_id"
      using has_key_getitem [OF q(1)] by (auto simp: matches_def)
    have "scan posts post_id = Inr (Some (posts ! j0))"
    proof (rule Cons.IH)
      show "j0 < length posts" using Cons.prems(1) Suc by simp
      show "matches post_id (posts ! j0)" using Cons.prems(2) Suc by simp
      show "\<forall>j'<j0. has_key (posts ! j') ''id'' \<and> \<not> matches post_id (posts ! j')"
      proof (intro allI impI)
        fix j' assume "j' < j0"
        then have "Suc j' < j" using Suc by simp
        with Cons.prems(3) show "has_key (posts ! j') ''id'' \<and> \<not> matches post_id (posts ! j')"
          by fastforce
      qed
    qed
    with v Suc show ?thesis by simp
  qed
qed

text \<open>What a successful fetch says about the store.\<close>

lemma fetch_Some:
  assumes "fetch_post_by_id post_id s = Inr (Some post)"
  shows "\<exists>posts i kvs. load_blog_posts s = Inr (JList posts) \<and> i < length posts \<and>
           posts ! i = post \<and> post = JDict kvs \<and> matches post_id post \<and>
           scan_index posts post_id 0 = Inr (Some i) \<and>
           (\<forall>j<i. has_key (posts ! j) ''id'' \<and> \<not> matches post_id (posts ! j))"
proof -
  from assms obtain b posts where b: "load_blog_posts s = Inr b" "py_iter b = Inr posts"
    "scan posts post_id = Inr (Some post)"
    by (auto simp: fetch_post_by_id_def split: sum.splits)
  then have "b = JList posts" by (simp add: iter_is_list)
  moreover from scan_index_Some [OF b(3), of 0] obtain i where
    "i < length posts" "scan_index posts post_id 0 = Inr (Some i)" "posts ! i = post"
    "matches post_id post" "\<forall>j<i. has_key (posts ! j) ''id'' \<and> \<not> matches post_id (posts ! j)"
    by auto
  moreover from \<open>matches post_id post\<close> obtain kvs where "post = JDict kvs"
    using matches_dict by blast
  ultimately show ?thesis using b(1) by blast
qed

text \<open>Replacing the first match by a post with the same id: the fetch finds the new post.\<close>

lemma fetch_after_replace:
  assumes "i < length posts" and "matches post_id post'"
    and "\<forall>j<i. has_key (posts ! j) ''id'' \<and> \<not> matches post_id (posts ! j)"
  shows "fetch_post_by_id post_id (save_blog_posts (JList (posts[i := post'])) s) = Inr (Some post')"
proof -
  have "scan (posts[i := post']) post_id = Inr (Some ((posts[i := post']) ! i))"
    using assms by (intro scan_SomeI) simp_all
  with assms(1) show ?thesis
    by (simp add: fetch_post_by_id_def load_save py_iter_def)
qed

lemma matches_setitem:
  "k \<noteq> ''id'' \<Longrightarrow> matches post_id (JDict (setitem kvs k x)) = matches post_id (JDict kvs)"
  by (simp add: matches_def getitem_setitem)

lemma fetch_two_posts: "fetch_post_by_id 1 two_posts = Inr (Some post_a)"
  by (simp add: fetch_post_by_id_def load_two_posts py_iter_def post_a_def py_getitem_def
      py_eq_int_def)

lemma fetch_old_store: "fetch_post_by_id 3 old_store = Inr (Some old_post)"
  by (simp add: fetch_post_by_id_def load_blog_posts_def old_store_def py_iter_def post_a_def
      old_post_def py_getitem_def py_eq_int_def)

subsection \<open>Create\<close>

lemma add_post:
  "load_blog_posts s = Inr (JList posts) \<Longrightarrow> request_method req = POST \<Longrightarrow>
   add req s = Inr (Redirect ''index'',
                    save_blog_posts (JList (posts @ [new_post (length posts) req])) s)"
  by (simp add: add_def py_len_def py_append_def)

lemma step_Create:
  "load_blog_posts s = Inr (JList posts) \<Longrightarrow>
   step (Create f) s =
     save_blog_posts
       (JList (posts @ [new_post (length posts) \<lparr>request_method = POST, request_form = f\<rparr>])) s"
  by (simp add: step_def handle_def add_post)

lemma run_creates:
  "load_blog_posts s = Inr (JList posts) \<Longrightarrow>
   load_blog_posts (run (map Create forms) s) = Inr (JList (posts @ created (length posts) forms))"
proof (induction forms arbitrary: s posts)
  case Nil
  then show ?case by simp
next
  case (Cons f forms)
  let ?p = "new_post (length posts) \<lparr>request_method = POST, request_form = f\<rparr>"
  have "load_blog_posts (step (Create f) s) = Inr (JList (posts @ [?p]))"
    using Cons.prems by (simp add: step_Create load_save)
  from Cons.IH [OF this] show ?case by simp
qed

lemma length_created: "length (created n forms) = length forms"
  by (induction forms arbitrary: n) simp_all

lemma nth_created:
  "k < length forms \<Longrightarrow>
   created n forms ! k = new_post (n + k) \<lparr>request_method = POST, request_form = forms ! k\<rparr>"
proof (induction forms arbitrary: n k)
  case Nil
  then show ?case by simp
next
  case (Cons f forms)
  then show ?case by (cases k) simp_all
qed

lemma new_post_id_likes:
  "py_getitem (new_post n req) ''id'' = Inr (JInt (int n + 1))"
  "py_getitem (new_post n req) ''likes'' = Inr (JInt 0)"
  by (simp_all add: new_post_def py_getitem_def)

text \<open>
  Claim C2. From an empty store (no file, or a file that holds the empty list), after any
  sequence of Create calls the collection has one post for each call, and the N-th post,
  the one the N-th call created, has id N and likes 0.
\<close>

theorem nth_created_post_has_id_n:
  assumes "load_blog_posts s = Inr (JList [])"
  shows "\<exists>posts. load_blog_posts (run (map Create forms) s) = Inr (JList posts) \<and>
           length posts = length forms \<and>
           (\<forall>N. 0 < N \<and> N \<le> length forms \<longrightarrow>
              py_getitem (posts ! (N - 1)) ''id'' = Inr (JInt (int N)) \<and>
              py_getitem (posts ! (N - 1)) ''likes'' = Inr (JInt 0))"
proof -
  have l: "load_blog_posts (run (map Create forms) s) = Inr (JList (created 0 forms))"
    using run_creates [OF assms, of forms] by simp
  have "py_getitem (created 0 forms ! (N - 1)) ''id'' = Inr (JInt (int N)) \<and>
        py_getitem (created 0 forms ! (N - 1)) ''likes'' = Inr (JInt 0)"
    if "0 < N" "N \<le> length forms" for N
  proof -
    from that have "N - 1 < length forms" by simp
    from nth_created [OF this, of 0] that(1) show ?thesis
      by (simp add: new_post_id_likes of_nat_diff)
  qed
  with l show ?thesis by (simp add: length_created)
qed

theorem nth_created_post_has_id_n_witness:
  "load_blog_posts no_file = Inr (JList []) \<and>
   (\<exists>posts. load_blog_posts
       (run (map Create [[(''title'', ''A''), (''content'', ''a1'')],
                         [(''title'', ''B''), (''content'', ''b1'')]]) no_file)
         = Inr (JList posts) \<and>
      length posts = 2 \<and>
      py_getitem (posts ! 0) ''id'' = Inr (JInt 1) \<and>
      py_getitem (posts ! 0) ''likes'' = Inr (JInt 0) \<and>
      py_getitem (posts ! 1) ''id'' = Inr (JInt 2) \<and>
      py_getitem (posts ! 1) ''likes'' = Inr (JInt 0))"
proof -
  have l: "load_blog_posts no_file = Inr (JList [])"
    by (simp add: load_blog_posts_def no_file_def)
  from nth_created_post_has_id_n [OF l,
      of "[[(''title'', ''A''), (''content'', ''a1'')], [(''title'', ''B''), (''content'', ''b1'')]]"]
  obtain posts where p: "load_blog_posts
       (run (map Create [[(''title'', ''A''), (''content'', ''a1'')],
                         [(''title'', ''B''), (''content'', ''b1'')]]) no_file)
         = Inr (JList posts)" "length posts = 2"
     "\<forall>N. 0 < N \<and> N \<le> 2 \<longrightarrow>
              py_getitem (posts ! (N - 1)) ''id'' = Inr (JInt (int N)) \<and>
              py_getitem (posts ! (N - 1)) ''likes'' = Inr (JInt 0)"
    by auto
  from p(3) [rule_format, of 1] p(3) [rule_format, of 2] p(1,2) l show ?thesis
    by simp
qed

text \<open>
  Claim C1. The claim says that no sequence of store operations from an empty store leaves
  two posts with the same id. The code computes the id of a new post from the length of
  the collection: after Create, Create, Delete 1, the one post left has id 2, and the
  next Create gives its post the id 2 as well.
\<close>

theorem duplicate_id_after_delete:
  "load_blog_posts
     (run [Create [(''title'', ''A''), (''content'', ''a1'')],
           Create [(''title'', ''B''), (''content'', ''b1'')],
           Delete 1,
           Create [(''title'', ''C''), (''content'', ''c1'')]] no_file)
   = Inr (JList
       [JDict [(''id'', JInt 2), (''title'', JStr ''B''), (''content'', JStr ''b1''),
               (''author'', JStr ''Anonymous''), (''likes'', JInt 0)],
        JDict [(''id'', JInt 2), (''title'', JStr ''C''), (''content'', JStr ''c1''),
               (''author'', JStr ''Anonymous''), (''likes'', JInt 0)]])"
  by (simp add: no_file_def step_def handle_def add_def delete_def load_blog_posts_def
      save_blog_posts_def py_len_def py_append_def py_iter_def new_post_def form_get_def
      form_get_default_def py_getitem_def py_eq_int_def)

subsection \<open>Like\<close>

lemma like_found:
  assumes "fetch_post_by_id post_id s = Inr (Some (JDict kvs))"
    and "bump_likes kvs = Inr post'"
  shows "\<exists>posts i. load_blog_posts s = Inr (JList posts) \<and> i < length posts \<and>
           posts ! i = JDict kvs \<and>
           (\<forall>j<i. has_key (posts ! j) ''id'' \<and> \<not> matches post_id (posts ! j)) \<and>
           like post_id s =
             Inr (Redirect ''index'', save_blog_posts (JList (posts[i := post'])) s)"
proof -
  from fetch_Some [OF assms(1)] obtain posts i where p:
    "load_blog_posts s = Inr (JList posts)" "i < length posts" "posts ! i = JDict kvs"
    "scan_index posts post_id 0 = Inr (Some i)"
    "\<forall>j<i. has_key (posts ! j) ''id'' \<and> \<not> matches post_id (posts ! j)"
    by blast
  then have "like post_id s =
      Inr (Redirect ''index'', save_blog_posts (JList (posts[i := post'])) s)"
    using assms(2) by (simp add: like_def py_iter_def)
  with p show ?thesis by blast
qed

lemma bump_likes_int:
  "map_of kvs ''likes'' = Some (JInt n) \<Longrightarrow>
   bump_likes kvs = Inr (JDict (setitem kvs ''likes'' (JInt (n + 1))))"
  by (simp add: bump_likes_def py_add1_def)

lemma bump_likes_absent:
  "map_of kvs ''likes'' = None \<Longrightarrow>
   bump_likes kvs = Inr (JDict (setitem kvs ''likes'' (JInt 1)))"
  by (simp add: bump_likes_def)

text \<open>One like of a post whose counter is absent or an integer.\<close>

lemma like_once:
  assumes "fetch_post_by_id post_id s = Inr (Some (JDict kvs))"
    and "bump_likes kvs = Inr (JDict (setitem kvs ''likes'' v))"
  shows "\<exists>posts i. load_blog_posts s = Inr (JList posts) \<and> i < length posts \<and>
           posts ! i = JDict kvs \<and>
           like post_id s =
             Inr (Redirect ''index'',
                  save_blog_posts (JList (posts[i := JDict (setitem kvs ''likes'' v)])) s) \<and>
           fetch_post_by_id post_id
             (save_blog_posts (JList (posts[i := JDict (setitem kvs ''likes'' v)])) s)
             = Inr (Some (JDict (setitem kvs ''likes'' v)))"
proof -
  from like_found [OF assms] obtain posts i where p:
    "load_blog_posts s = Inr (JList posts)" "i < length posts" "posts ! i = JDict kvs"
    "\<forall>j<i. has_key (posts ! j) ''id'' \<and> \<not> matches post_id (posts ! j)"
    "like post_id s =
       Inr (Redirect ''index'',
            save_blog_posts (JList (posts[i := JDict (setitem kvs ''likes'' v)])) s)"
    by blast
  from fetch_Some [OF assms(1)] have "matches post_id (JDict kvs)" by blast
  then have "matches post_id (JDict (setitem kvs ''likes'' v))"
    by (simp add: matches_setitem)
  from fetch_after_replace [OF p(2) this p(4)] p show ?thesis by blast
qed

lemma like_sets_likes:
  assumes "fetch_post_by_id post_id s = Inr (Some (JDict kvs))"
    and "bump_likes kvs = Inr (JDict (setitem kvs ''likes'' v))"
  shows "\<exists>posts i post'. load_blog_posts s = Inr (JList posts) \<and> i < length posts \<and>
           posts ! i = JDict kvs \<and>
           like post_id s =
             Inr (Redirect ''index'', save_blog_posts (JList (posts[i := post'])) s) \<and>
           fetch_post_by_id post_id (save_blog_posts (JList (posts[i := post'])) s)
             = Inr (Some post') \<and>
           py_getitem post' ''likes'' = Inr v \<and>
           (\<forall>k. k \<noteq> ''likes'' \<longrightarrow> py_getitem post' k = py_getitem (JDict kvs) k)"
proof -
  from like_once [OF assms] obtain posts i where
    "load_blog_posts s = Inr (JList posts)" "i < length posts" "posts ! i = JDict kvs"
    "like post_id s =
       Inr (Redirect ''index'',
            save_blog_posts (JList (posts[i := JDict (setitem kvs ''likes'' v)])) s)"
    "fetch_post_by_id post_id
       (save_blog_posts (JList (posts[i := JDict (setitem kvs ''likes'' v)])) s)
       = Inr (Some (JDict (setitem kvs ''likes'' v)))"
    by blast
  moreover have "py_getitem (JDict (setitem kvs ''likes'' v)) ''likes'' = Inr v"
    by (simp add: getitem_setitem)
  moreover have "\<forall>k. k \<noteq> ''likes'' \<longrightarrow>
      py_getitem (JDict (setitem kvs ''likes'' v)) k = py_getitem (JDict kvs) k"
    by (simp add: getitem_setitem)
  ultimately show ?thesis by blast
qed

lemma like_twice:
  assumes "fetch_post_by_id post_id s = Inr (Some (JDict kvs))"
    and "map_of kvs ''likes'' = Some (JInt n)"
  shows "\<exists>s1 s2 post2. like post_id s = Inr (Redirect ''index'', s1) \<and>
           like post_id s1 = Inr (Redirect ''index'', s2) \<and>
           fetch_post_by_id post_id s2 = Inr (Some post2) \<and>
           py_getitem post2 ''likes'' = Inr (JInt (n + 2))"
proof -
  let ?kvs1 = "setitem kvs ''likes'' (JInt (n + 1))"
  from like_once [OF assms(1) bump_likes_int [OF assms(2)]] obtain s1 where s1:
    "like post_id s = Inr (Redirect ''index'', s1)"
    "fetch_post_by_id post_id s1 = Inr (Some (JDict ?kvs1))"
    by blast
  have "map_of ?kvs1 ''likes'' = Some (JInt (n + 1))"
    by (simp add: map_of_setitem)
  from like_sets_likes [OF s1(2) bump_likes_int [OF this]] obtain s2 post2 where
    "like post_id s1 = Inr (Redirect ''index'', s2)"
    "fetch_post_by_id post_id s2 = Inr (Some post2)"
    "py_getitem post2 ''likes'' = Inr (JInt (n + 1 + 1))"
    by blast
  with s1(1) show ?thesis by (auto simp: add.assoc)
qed

lemma like_sets_likes_obs:
  assumes "fetch_post_by_id post_id s = Inr (Some (JDict kvs))"
    and "bump_likes kvs = Inr (JDict (setitem kvs ''likes'' v))"
  shows "\<exists>s' post'. like post_id s = Inr (Redirect ''index'', s') \<and>
           fetch_post_by_id post_id s' = Inr (Some post') \<and>
           py_getitem post' ''likes'' = Inr v \<and>
           (\<forall>k. k \<noteq> ''likes'' \<longrightarrow> py_getitem post' k = py_getitem (JDict kvs) k)"
  using like_sets_likes [OF assms] by blast

text \<open>
  Claim C4. When \<open>fetch_post_by_id\<close> finds a post for the id, \<open>like\<close> saves the
  collection with that post's likes one higher when they were an integer, and set to 1
  when the post had no \<open>"likes"\<close> key; every other key of the post reads as before. Two
  likes in a row of a post whose likes are 0 leave it with likes 2.
\<close>

theorem like_increments_by_one:
  assumes "fetch_post_by_id post_id s = Inr (Some post)"
  shows "(\<forall>n. py_getitem post ''likes'' = Inr (JInt n) \<longrightarrow>
            (\<exists>s' post'. like post_id s = Inr (Redirect ''index'', s') \<and>
               fetch_post_by_id post_id s' = Inr (Some post') \<and>
               py_getitem post' ''likes'' = Inr (JInt (n + 1)) \<and>
               (\<forall>k. k \<noteq> ''likes'' \<longrightarrow> py_getitem post' k = py_getitem post k))) \<and>
         (\<not> has_key post ''likes'' \<longrightarrow>
            (\<exists>s' post'. like post_id s = Inr (Redirect ''index'', s') \<and>
               fetch_post_by_id post_id s' = Inr (Some post') \<and>
               py_getitem post' ''likes'' = Inr (JInt 1) \<and>
               (\<forall>k. k \<noteq> ''likes'' \<longrightarrow> py_getitem post' k = py_getitem post k))) \<and>
         (py_getitem post ''likes'' = Inr (JInt 0) \<longrightarrow>
            (\<exists>s1 s2 post2. like post_id s = Inr (Redirect ''index'', s1) \<and>
               like post_id s1 = Inr (Redirect ''index'', s2) \<and>
               fetch_post_by_id post_id s2 = Inr (Some post2) \<and>
               py_getitem post2 ''likes'' = Inr (JInt 2)))"
proof -
  from fetch_Some [OF assms] obtain kvs where kvs: "post = JDict kvs" by blast
  note f = assms [unfolded kvs]
  have int: "map_of kvs ''likes'' = Some (JInt n)" if "py_getitem post ''likes'' = Inr (JInt n)" for n
    using that kvs by (simp add: py_getitem_def split: option.splits)
  have absent: "map_of kvs ''likes'' = None" if "\<not> has_key post ''likes''"
    using that kvs by (simp add: has_key_dict)
  have a: "\<exists>s' post'. like post_id s = Inr (Redirect ''index'', s') \<and>
               fetch_post_by_id post_id s' = Inr (Some post') \<and>
               py_getitem post' ''likes'' = Inr (JInt (n + 1)) \<and>
               (\<forall>k. k \<noteq> ''likes'' \<longrightarrow> py_getitem post' k = py_getitem post k)"
    if "py_getitem post ''likes'' = Inr (JInt n)" for n
    using like_sets_likes_obs [OF f bump_likes_int [OF int [OF that]]] kvs by simp
  have b: "\<exists>s' post'. like post_id s = Inr (Redirect ''index'', s') \<and>
               fetch_post_by_id post_id s' = Inr (Some post') \<and>
               py_getitem post' ''likes'' = Inr (JInt 1) \<and>
               (\<forall>k. k \<noteq> ''likes'' \<longrightarrow> py_getitem post' k = py_getitem post k)"
    if "\<not> has_key post ''likes''"
    using like_sets_likes_obs [OF f bump_likes_absent [OF absent [OF that]]] kvs by simp
  have c: "\<exists>s1 s2 post2. like post_id s = Inr (Redirect ''index'', s1) \<and>
               like post_id s1 = Inr (Redirect ''index'', s2) \<and>
               fetch_post_by_id post_id s2 = Inr (Some post2) \<and>
               py_getitem post2 ''likes'' = Inr (JInt 2)"
    if "py_getitem post ''likes'' = Inr (JInt 0)"
    using like_twice [OF f int [OF that]] by simp
  from a b c show ?thesis by blast
qed

theorem like_increments_by_one_witness:
  "fetch_post_by_id 1 two_posts = Inr (Some post_a) \<and>
   py_getitem post_a ''likes'' = Inr (JInt 0) \<and>
   (\<exists>s' post'. like 1 two_posts = Inr (Redirect ''index'', s') \<and>
      fetch_post_by_id 1 s' = Inr (Some post') \<and>
      py_getitem post' ''likes'' = Inr (JInt 1)) \<and>
   (\<exists>s1 s2 post2. like 1 two_posts = Inr (Redirect ''index'', s1) \<and>
      like 1 s1 = Inr (Redirect ''index'', s2) \<and>
      fetch_post_by_id 1 s2 = Inr (Some post2) \<and>
      py_getitem post2 ''likes'' = Inr (JInt 2)) \<and>
   fetch_post_by_id 3 old_store = Inr (Some old_post) \<and>
   \<not> has_key old_post ''likes'' \<and>
   (\<exists>s' post'. like 3 old_store = Inr (Redirect ''index'', s') \<and>
      fetch_post_by_id 3 s' = Inr (Some post') \<and>
      py_getitem post' ''likes'' = Inr (JInt 1))"
proof -
  have a: "py_getitem post_a ''likes'' = Inr (JInt 0)"
    by (simp add: post_a_def py_getitem_def)
  have o: "\<not> has_key old_post ''likes''"
    by (simp add: old_post_def has_key_dict)
  note t1 = like_increments_by_one [OF fetch_two_posts]
  note t2 = like_increments_by_one [OF fetch_old_store]
  from t1 a have "\<exists>s' post'. like 1 two_posts = Inr (Redirect ''index'', s') \<and>
      fetch_post_by_id 1 s' = Inr (Some post') \<and>
      py_getitem post' ''likes'' = Inr (JInt 1)"
    by fastforce
  moreover from t1 a have "\<exists>s1 s2 post2. like 1 two_posts = Inr (Redirect ''index'', s1) \<and>
      like 1 s1 = Inr (Redirect ''index'', s2) \<and>
      fetch_post_by_id 1 s2 = Inr (Some post2) \<and>
      py_getitem post2 ''likes'' = Inr (JInt 2)"
    by blast
  moreover from t2 o have "\<exists>s' post'. like 3 old_store = Inr (Redirect ''index'', s') \<and>
      fetch_post_by_id 3 s' = Inr (Some post') \<and>
      py_getitem post' ''likes'' = Inr (JInt 1)"
    by blast
  ultimately show ?thesis using a o fetch_two_posts fetch_old_store by blast
qed

subsection \<open>Update\<close>

lemma update_fields_dict:
  assumes "map_of kvs ''title'' = Some t0" and "map_of kvs ''content'' = Some c0"
  shows "update_fields req (JDict kvs) kvs' =
    Inr (JDict
      (setitem
        (setitem
          (setitem kvs' ''title'' (form_get_default req ''title'' t0))
          ''content'' (form_get_default req ''content'' c0))
        ''author''
        (form_get_default req ''author''
           (case map_of kvs ''author'' of None \<Rightarrow> JStr ''Anonymous'' | Some a \<Rightarrow> a))))"
  using assms by (simp add: update_fields_def py_getitem_def py_get_def)

lemma update_found:
  assumes "fetch_post_by_id post_id s = Inr (Some (JDict kvs))"
    and "update_fields req (JDict kvs) kvs = Inr post'"
    and "request_method req = POST"
  shows "\<exists>posts i. load_blog_posts s = Inr (JList posts) \<and> i < length posts \<and>
           posts ! i = JDict kvs \<and>
           (\<forall>j<i. has_key (posts ! j) ''id'' \<and> \<not> matches post_id (posts ! j)) \<and>
           update post_id req s =
             Inr (Redirect ''index'', save_blog_posts (JList (posts[i := post'])) s)"
proof -
  from fetch_Some [OF assms(1)] obtain posts i where p:
    "load_blog_posts s = Inr (JList posts)" "i < length posts" "posts ! i = JDict kvs"
    "scan_index posts post_id 0 = Inr (Some i)"
    "\<forall>j<i. has_key (posts ! j) ''id'' \<and> \<not> matches post_id (posts ! j)"
    by blast
  then have "update post_id req s =
      Inr (Redirect ''index'', save_blog_posts (JList (posts[i := post'])) s)"
    using assms by (simp add: update_def py_iter_def)
  with p show ?thesis by blast
qed


text \<open>
  Claim C3, as stated, fails on a record without an author: an update that supplies only
  the title stores \<open>"author": "Anonymous"\<close> in a record that had no \<open>"author"\<close> key,
  so the author field of the persisted post is not what it was.
\<close>

theorem title_only_update_writes_author:
  "fetch_post_by_id 3 old_store = Inr (Some old_post) \<and>
   py_getitem old_post ''author'' = Inl KeyError \<and>
   update 3 \<lparr>request_method = POST, request_form = [(''title'', ''T'')]\<rparr> old_store =
     Inr (Redirect ''index'',
          \<lparr>disk = Json (JList [post_a,
              JDict [(''id'', JInt 3), (''title'', JStr ''T''), (''content'', JStr ''c1''),
                     (''author'', JStr ''Anonymous'')]]),
           saved = [JList [post_a,
              JDict [(''id'', JInt 3), (''title'', JStr ''T''), (''content'', JStr ''c1''),
                     (''author'', JStr ''Anonymous'')]]]\<rparr>) \<and>
   py_getitem
     (JDict [(''id'', JInt 3), (''title'', JStr ''T''), (''content'', JStr ''c1''),
             (''author'', JStr ''Anonymous'')]) ''author''
     \<noteq> py_getitem old_post ''author''"
  by (simp add: update_def fetch_post_by_id_def load_blog_posts_def save_blog_posts_def
      old_store_def old_post_def post_a_def py_iter_def py_getitem_def py_get_def py_eq_int_def
      update_fields_def form_get_default_def)

text \<open>
  Claim C3, amended. When \<open>fetch_post_by_id\<close> finds a post for the id, and the post has a
  title and a content, a POST to \<open>update\<close> saves the collection with that one post
  replaced (the first with the id; every other post stays as it was), and the post that
  \<open>fetch_post_by_id\<close> then reads from the file is the new one. In the new post each of
  title, content and author that the form supplies has the supplied value; a title or a
  content that the form does not supply is as before; an author that the form does not
  supply is as before when the post had one, and is \<open>"Anonymous"\<close> when it had none;
  every other key, likes among them, is unchanged. An update with only the title supplied
  is the case where the form has no content and no author.
\<close>

theorem update_replaces_supplied_fields_only:
  assumes "fetch_post_by_id post_id s = Inr (Some post)"
    and "has_key post ''title''" and "has_key post ''content''"
  shows "\<exists>s' posts i post'.
           update post_id \<lparr>request_method = POST, request_form = f\<rparr> s =
             Inr (Redirect ''index'', s') \<and>
           load_blog_posts s = Inr (JList posts) \<and> i < length posts \<and> posts ! i = post \<and>
           (\<forall>j<i. \<not> matches post_id (posts ! j)) \<and>
           disk s' = Json (JList (posts[i := post'])) \<and>
           saved s' = saved s @ [JList (posts[i := post'])] \<and>
           fetch_post_by_id post_id s' = Inr (Some post') \<and>
           (\<forall>x. map_of f ''title'' = Some x \<longrightarrow> py_getitem post' ''title'' = Inr (JStr x)) \<and>
           (map_of f ''title'' = None \<longrightarrow> py_getitem post' ''title'' = py_getitem post ''title'') \<and>
           (\<forall>x. map_of f ''content'' = Some x \<longrightarrow> py_getitem post' ''content'' = Inr (JStr x)) \<and>
           (map_of f ''content'' = None \<longrightarrow>
              py_getitem post' ''content'' = py_getitem post ''content'') \<and>
           (\<forall>x. map_of f ''author'' = Some x \<longrightarrow> py_getitem post' ''author'' = Inr (JStr x)) \<and>
           (map_of f ''author'' = None \<longrightarrow> has_key post ''author'' \<longrightarrow>
              py_getitem post' ''author'' = py_getitem post ''author'') \<and>
           (map_of f ''author'' = None \<longrightarrow> \<not> has_key post ''author'' \<longrightarrow>
              py_getitem post' ''author'' = Inr (JStr ''Anonymous'')) \<and>
           (\<forall>k. k \<notin> {''title'', ''content'', ''author''} \<longrightarrow>
              py_getitem post' k = py_getitem post k)"
proof -
  let ?req = "\<lparr>request_method = POST, request_form = f\<rparr>"
  from fetch_Some [OF assms(1)] obtain kvs where kvs: "post = JDict kvs" by blast
  from fetch_Some [OF assms(1)] have "matches post_id post" by blast
  then have m0: "matches post_id (JDict kvs)" by (simp add: kvs)
  from assms(2,3) kvs obtain t0 c0 where
    old: "map_of kvs ''title'' = Some t0" "map_of kvs ''content'' = Some c0"
    by (auto simp: has_key_dict)
  define a0 where "a0 = (case map_of kvs ''author'' of None \<Rightarrow> JStr ''Anonymous'' | Some a \<Rightarrow> a)"
  define post' where "post' = JDict
      (setitem
        (setitem
          (setitem kvs ''title'' (form_get_default ?req ''title'' t0))
          ''content'' (form_get_default ?req ''content'' c0))
        ''author'' (form_get_default ?req ''author'' a0))"
  have u: "update_fields ?req (JDict kvs) kvs = Inr post'"
    using update_fields_dict [OF old] by (simp add: post'_def a0_def)
  from update_found [OF assms(1) [unfolded kvs] u] obtain posts i where p0:
    "load_blog_posts s = Inr (JList posts)" "i < length posts" "posts ! i = JDict kvs"
    and first: "\<forall>j<i. has_key (posts ! j) ''id'' \<and> \<not> matches post_id (posts ! j)"
    and upd: "update post_id ?req s =
       Inr (Redirect ''index'', save_blog_posts (JList (posts[i := post'])) s)"
    by force
  have p: "load_blog_posts s = Inr (JList posts)" "i < length posts" "posts ! i = post"
    using p0 kvs by simp_all
  define s' where "s' = save_blog_posts (JList (posts[i := post'])) s"
  have before: "\<forall>j<i. \<not> matches post_id (posts ! j)"
    using first by simp
  have d: "disk s' = Json (JList (posts[i := post']))"
    by (simp add: s'_def save_blog_posts_def)
  have l: "saved s' = saved s @ [JList (posts[i := post'])]"
    by (simp add: s'_def save_blog_posts_def)
  have "matches post_id post'"
    using m0 by (simp add: post'_def matches_setitem)
  from fetch_after_replace [OF p(2) this first, of s]
  have fe: "fetch_post_by_id post_id s' = Inr (Some post')"
    by (simp add: s'_def)
  have g: "py_getitem (JDict kvs) ''title'' = Inr t0" "py_getitem (JDict kvs) ''content'' = Inr c0"
    using old by (simp_all add: py_getitem_def)
  have t1: "\<forall>x. map_of f ''title'' = Some x \<longrightarrow> py_getitem post' ''title'' = Inr (JStr x)"
    by (simp add: post'_def getitem_setitem form_get_default_def)
  have t2: "map_of f ''title'' = None \<longrightarrow> py_getitem post' ''title'' = py_getitem post ''title''"
    using g by (simp add: post'_def kvs getitem_setitem form_get_default_def)
  have c1: "\<forall>x. map_of f ''content'' = Some x \<longrightarrow> py_getitem post' ''content'' = Inr (JStr x)"
    by (simp add: post'_def getitem_setitem form_get_default_def)
  have c2: "map_of f ''content'' = None \<longrightarrow>
      py_getitem post' ''content'' = py_getitem post ''content''"
    using g by (simp add: post'_def kvs getitem_setitem form_get_default_def)
  have a1: "\<forall>x. map_of f ''author'' = Some x \<longrightarrow> py_getitem post' ''author'' = Inr (JStr x)"
    by (simp add: post'_def getitem_setitem form_get_default_def)
  have a: "py_getitem post' ''author'' = Inr a0" if "map_of f ''author'' = None"
    using that by (simp add: post'_def getitem_setitem form_get_default_def)
  have a2: "map_of f ''author'' = None \<longrightarrow> has_key post ''author'' \<longrightarrow>
      py_getitem post' ''author'' = py_getitem post ''author''"
    using a by (auto simp: kvs has_key_dict py_getitem_def a0_def)
  have a3: "map_of f ''author'' = None \<longrightarrow> \<not> has_key post ''author'' \<longrightarrow>
      py_getitem post' ''author'' = Inr (JStr ''Anonymous'')"
    using a by (auto simp: kvs has_key_dict a0_def)
  have r: "\<forall>k. k \<notin> {''title'', ''content'', ''author''} \<longrightarrow>
      py_getitem post' k = py_getitem post k"
    by (simp add: post'_def kvs getitem_setitem)
  have upd': "update post_id ?req s = Inr (Redirect ''index'', s')"
    using upd by (simp add: s'_def)
  show ?thesis
    by (intro exI [of _ s'] exI [of _ posts] exI [of _ i] exI [of _ post'] conjI)
      (fact upd' p before d l fe t1 t2 c1 c2 a1 a2 a3 r)+
qed

theorem update_replaces_supplied_fields_only_witness:
  "fetch_post_by_id 1 two_posts = Inr (Some post_a) \<and>
   has_key post_a ''title'' \<and> has_key post_a ''content'' \<and> has_key post_a ''author'' \<and>
   (\<exists>s' posts i post'.
      update 1 \<lparr>request_method = POST, request_form = [(''title'', ''T'')]\<rparr> two_posts =
        Inr (Redirect ''index'', s') \<and>
      load_blog_posts two_posts = Inr (JList posts) \<and> i < length posts \<and> posts ! i = post_a \<and>
      disk s' = Json (JList (posts[i := post'])) \<and>
      fetch_post_by_id 1 s' = Inr (Some post') \<and>
      py_getitem post' ''title'' = Inr (JStr ''T'') \<and>
      py_getitem post' ''content'' = py_getitem post_a ''content'' \<and>
      py_getitem post' ''author'' = py_getitem post_a ''author'' \<and>
      py_getitem post' ''likes'' = py_getitem post_a ''likes'') \<and>
   fetch_post_by_id 3 old_store = Inr (Some old_post) \<and>
   has_key old_post ''title'' \<and> has_key old_post ''content'' \<and> \<not> has_key old_post ''author'' \<and>
   (\<exists>s' posts i post'.
      update 3 \<lparr>request_method = POST, request_form = [(''title'', ''T'')]\<rparr> old_store =
        Inr (Redirect ''index'', s') \<and>
      load_blog_posts old_store = Inr (JList posts) \<and> i < length posts \<and> posts ! i = old_post \<and>
      disk s' = Json (JList (posts[i := post'])) \<and>
      fetch_post_by_id 3 s' = Inr (Some post') \<and>
      py_getitem post' ''title'' = Inr (JStr ''T'') \<and>
      py_getitem post' ''content'' = py_getitem old_post ''content'' \<and>
      py_getitem post' ''author'' = Inr (JStr ''Anonymous'') \<and>
      py_getitem post' ''likes'' = py_getitem old_post ''likes'') \<and>
   (\<exists>s' posts i post'.
      update 3 \<lparr>request_method = POST,
                 request_form = [(''content'', ''c2''), (''author'', ''Cy'')]\<rparr> old_store =
        Inr (Redirect ''index'', s') \<and>
      load_blog_posts old_store = Inr (JList posts) \<and> i < length posts \<and> posts ! i = old_post \<and>
      disk s' = Json (JList (posts[i := post'])) \<and>
      fetch_post_by_id 3 s' = Inr (Some post') \<and>
      py_getitem post' ''title'' = py_getitem old_post ''title'' \<and>
      py_getitem post' ''content'' = Inr (JStr ''c2'') \<and>
      py_getitem post' ''author'' = Inr (JStr ''Cy'') \<and>
      py_getitem post' ''likes'' = py_getitem old_post ''likes'')"
proof -
  have h: "has_key post_a ''title''" "has_key post_a ''content''" "has_key post_a ''author''"
    by (simp_all add: post_a_def has_key_dict)
  have h': "has_key old_post ''title''" "has_key old_post ''content''"
    "\<not> has_key old_post ''author''"
    by (simp_all add: old_post_def has_key_dict)
  have m: "map_of [(''title'', ''T'')] ''title'' = Some ''T''"
    "map_of [(''title'', ''T'')] ''content'' = None"
    "map_of [(''title'', ''T'')] ''author'' = None"
    by simp_all
  have m': "map_of [(''content'', ''c2''), (''author'', ''Cy'')] ''title'' = None"
    "map_of [(''content'', ''c2''), (''author'', ''Cy'')] ''content'' = Some ''c2''"
    "map_of [(''content'', ''c2''), (''author'', ''Cy'')] ''author'' = Some ''Cy''"
    by simp_all
  have k: "''likes'' \<notin> {''title'', ''content'', ''author''}"
    by simp
  have title_only:
    "\<exists>s' posts i post'.
      update 1 \<lparr>request_method = POST, request_form = [(''title'', ''T'')]\<rparr> two_posts =
        Inr (Redirect ''index'', s') \<and>
      load_blog_posts two_posts = Inr (JList posts) \<and> i < length posts \<and> posts ! i = post_a \<and>
      disk s' = Json (JList (posts[i := post'])) \<and>
      fetch_post_by_id 1 s' = Inr (Some post') \<and>
      py_getitem post' ''title'' = Inr (JStr ''T'') \<and>
      py_getitem post' ''content'' = py_getitem post_a ''content'' \<and>
      py_getitem post' ''author'' = py_getitem post_a ''author'' \<and>
      py_getitem post' ''likes'' = py_getitem post_a ''likes''"
    using update_replaces_supplied_fields_only
      [OF fetch_two_posts h(1,2), of "[(''title'', ''T'')]"]
    unfolding m
    apply (elim exE conjE)
    subgoal for s' posts i post'
      apply (rule exI [of _ s'], rule exI [of _ posts], rule exI [of _ i], rule exI [of _ post'])
      using h(3) k apply simp
      done
    done
  have title_only_old:
    "\<exists>s' posts i post'.
      update 3 \<lparr>request_method = POST, request_form = [(''title'', ''T'')]\<rparr> old_store =
        Inr (Redirect ''index'', s') \<and>
      load_blog_posts old_store = Inr (JList posts) \<and> i < length posts \<and> posts ! i = old_post \<and>
      disk s' = Json (JList (posts[i := post'])) \<and>
      fetch_post_by_id 3 s' = Inr (Some post') \<and>
      py_getitem post' ''title'' = Inr (JStr ''T'') \<and>
      py_getitem post' ''content'' = py_getitem old_post ''content'' \<and>
      py_getitem post' ''author'' = Inr (JStr ''Anonymous'') \<and>
      py_getitem post' ''likes'' = py_getitem old_post ''likes''"
    using update_replaces_supplied_fields_only
      [OF fetch_old_store h'(1,2), of "[(''title'', ''T'')]"]
    unfolding m
    apply (elim exE conjE)
    subgoal for s' posts i post'
      apply (rule exI [of _ s'], rule exI [of _ posts], rule exI [of _ i], rule exI [of _ post'])
      using h'(3) k apply simp
      done
    done
  have no_title:
    "\<exists>s' posts i post'.
      update 3 \<lparr>request_method = POST,
                 request_form = [(''content'', ''c2''), (''author'', ''Cy'')]\<rparr> old_store =
        Inr (Redirect ''index'', s') \<and>
      load_blog_posts old_store = Inr (JList posts) \<and> i < length posts \<and> posts ! i = old_post \<and>
      disk s' = Json (JList (posts[i := post'])) \<and>
      fetch_post_by_id 3 s' = Inr (Some post') \<and>
      py_getitem post' ''title'' = py_getitem old_post ''title'' \<and>
      py_getitem post' ''content'' = Inr (JStr ''c2'') \<and>
      py_getitem post' ''author'' = Inr (JStr ''Cy'') \<and>
      py_getitem post' ''likes'' = py_getitem old_post ''likes''"
    using update_replaces_supplied_fields_only
      [OF fetch_old_store h'(1,2), of "[(''content'', ''c2''), (''author'', ''Cy'')]"]
    unfolding m'
    apply (elim exE conjE)
    subgoal for s' posts i post'
      apply (rule exI [of _ s'], rule exI [of _ posts], rule exI [of _ i], rule exI [of _ post'])
      using k apply simp
      done
    done
  from fetch_two_posts h title_only fetch_old_store h' title_only_old no_title
  show ?thesis by (intro conjI)
qed

end
